theory Spec2Isabelle
  imports Complex_Main
begin

section \<open>Realtime collaboration hook: data model\<close>

text \<open>
  The development embeds \<^verbatim>\<open>src/hooks/use-realtime-collaboration.ts\<close>.
  TypeScript interfaces become records, the string union of action kinds a datatype.
  Record fields carry a short prefix, because the hook's own parameters (\<^verbatim>\<open>userId\<close>,
  \<^verbatim>\<open>userName\<close>, \<^verbatim>\<open>userColor\<close>) have the same names as fields of the envelope.
\<close>

datatype action_type =
  node_move | node_select | node_create | node_delete | cursor_move | user_join | user_leave

text \<open>\<^verbatim>\<open>{ x: number; y: number }\<close>; the coordinates are carried, never computed with.\<close>

record Position =
  pos_x :: real
  pos_y :: real

text \<open>The values of \<^verbatim>\<open>data?: Record<string, unknown>\<close>.\<close>

datatype json =
  JNull | JBool bool | JNum real | JStr string | JArr "json list" | JObj "(string \<times> json) list"

text \<open>
  \<^verbatim>\<open>interface MindMapAction\<close> (lines 18-34): the envelope as the hook builds it, every
  required field present. \<^verbatim>\<open>timestamp\<close> holds \<^verbatim>\<open>Date.now()\<close>, integer milliseconds.
\<close>

record MindMapAction =
  a_type :: action_type
  a_nodeId :: "string option"
  a_position :: "Position option"
  a_userId :: string
  a_userName :: string
  a_userColor :: string
  a_timestamp :: int
  a_data :: "(string \<times> json) list option"

text \<open>
  The argument of \<^verbatim>\<open>broadcastAction\<close>:
  \<^verbatim>\<open>Omit<MindMapAction, "userId" | "userName" | "userColor" | "timestamp">\<close>.
\<close>

record ActionInput =
  i_type :: action_type
  i_nodeId :: "string option"
  i_position :: "Position option"
  i_data :: "(string \<times> json) list option"

text \<open>
  What a receive handler is handed. \<^verbatim>\<open>payload as MindMapAction\<close> is a cast that TypeScript
  erases, so at run time the payload is whatever the transport delivered: \<^verbatim>\<open>undefined\<close> or
  \<^verbatim>\<open>null\<close> (\<open>Nullish\<close>: reading a property throws a TypeError), a boolean, number or
  string (\<open>Primitive\<close>: every property read gives \<^verbatim>\<open>undefined\<close>), or an object, any of
  whose properties may be missing (\<open>None\<close> is \<^verbatim>\<open>undefined\<close>).
\<close>

record WireObject =
  w_type :: "action_type option"
  w_nodeId :: "string option"
  w_position :: "Position option"
  w_userId :: "string option"
  w_userName :: "string option"
  w_userColor :: "string option"
  w_timestamp :: "int option"
  w_data :: "(string \<times> json) list option"

datatype payload = Nullish | Primitive | Object WireObject

text \<open>A well-typed envelope on the wire.\<close>

definition wire :: "MindMapAction \<Rightarrow> payload" where
  "wire a = Object \<lparr> w_type = Some (a_type a), w_nodeId = a_nodeId a,
     w_position = a_position a, w_userId = Some (a_userId a),
     w_userName = Some (a_userName a), w_userColor = Some (a_userColor a),
     w_timestamp = Some (a_timestamp a), w_data = a_data a \<rparr>"

text \<open>
  \<^verbatim>\<open>interface CollaborativeUser\<close> (lines 6-16). The entries of the participant list are
  built from inbound payloads (lines 226-231), so at run time \<^verbatim>\<open>id\<close>, \<^verbatim>\<open>name\<close> and
  \<^verbatim>\<open>color\<close> hold what the payload held: \<open>None\<close> where the payload lacked the property.
\<close>

record CollaborativeUser =
  u_id :: "string option"
  u_name :: "string option"
  u_email :: "string option"
  u_cursor :: "Position option"
  u_color :: "string option"
  u_online_at :: string

datatype js_error = TypeError | RangeError

text \<open>
  What the hook does to the outside, in the order it does it. \<open>OnAction\<close> and
  \<open>OnPresenceChange\<close> are the dispatches \<^verbatim>\<open>onActionRef.current?.(action)\<close> and
  \<^verbatim>\<open>onPresenceChangeRef.current?.(updated)\<close> through the callback slots; a channel is
  named by its topic; \<open>SendBeacon url chatId action\<close> is the call
  \<^verbatim>\<open>navigator.sendBeacon(url, JSON.stringify({chatId, action}))\<close>.
\<close>

datatype effect =
    OnAction payload
  | OnPresenceChange "CollaborativeUser list"
  | ChannelSend string string MindMapAction
  | SendBeacon string string MindMapAction
  | ClearTimeout nat
  | SetTimeout nat
  | RemoveChannel string
  | ConsoleLog string
  | ConsoleWarn string
  | ConsoleError string

section \<open>Constants\<close>

definition USER_COLORS :: "string list" where
  "USER_COLORS = [''#3B82F6'', ''#EF4444'', ''#10B981'', ''#F59E0B'',
                  ''#8B5CF6'', ''#EC4899'', ''#06B6D4'', ''#84CC16'']"

definition EVENT_ACTION_TYPE :: string where
  "EVENT_ACTION_TYPE = ''mind_map_action''"


definition EVENT_USER_LEAVE_TYPE :: string where
  "EVENT_USER_LEAVE_TYPE = ''user_leave''"

section \<open>Channel topic\<close>

text \<open>Line 203: \<^verbatim>\<open>const roomName = `chat-collaboration:${chatId}`\<close>.\<close>

definition roomName :: "string \<Rightarrow> string" where
  "roomName chatId = ''chat-collaboration:'' @ chatId"

text \<open>
  The head of the channel effect (lines 200-204): nothing is opened while \<^verbatim>\<open>chatId\<close> or
  \<^verbatim>\<open>userId\<close> is falsy (the empty string); otherwise the channel of topic \<open>roomName chatId\<close>
  is created. \<^verbatim>\<open>userName\<close> is a dependency of the effect and is not read here.
\<close>

definition openChannel :: "string \<Rightarrow> string \<Rightarrow> string \<Rightarrow> string option" where
  "openChannel chatId userId userName =
     (if chatId = [] \<or> userId = [] then None else Some (roomName chatId))"

section \<open>Presence registry\<close>

text \<open>
  Line 230, \<^verbatim>\<open>new Date(action.timestamp).toISOString()\<close>. A Date built from
  \<^verbatim>\<open>undefined\<close>, or from a number beyond 8.64e15 milliseconds either side of the epoch, is
  an invalid Date, and \<^verbatim>\<open>toISOString\<close> throws a RangeError on it. The text that the host
  prints for a valid time value is the parameter \<open>render\<close>.
\<close>

definition toISOString :: "(int \<Rightarrow> string) \<Rightarrow> int option \<Rightarrow> js_error + string" where
  "toISOString render timestamp =
     (case timestamp of
        None \<Rightarrow> Inl RangeError
      | Some ms \<Rightarrow> if \<bar>ms\<bar> \<le> 8640000000000000 then Inr (render ms) else Inl RangeError)"

text \<open>
  What reading properties off the cast payload gives (lines 208, 221, 247 and the reads
  that follow): a TypeError on \<^verbatim>\<open>undefined\<close>/\<^verbatim>\<open>null\<close>, \<^verbatim>\<open>undefined\<close> for every
  property of a primitive, the object's own properties otherwise.
\<close>

definition noProperties :: WireObject where
  "noProperties = \<lparr> w_type = None, w_nodeId = None, w_position = None, w_userId = None,
     w_userName = None, w_userColor = None, w_timestamp = None, w_data = None \<rparr>"

fun properties :: "payload \<Rightarrow> js_error + WireObject" where
  "properties Nullish = Inl TypeError"
| "properties Primitive = Inr noProperties"
| "properties (Object w) = Inr w"

text \<open>
  The state updater of the join handler (lines 233-238): drop every entry of the joining
  id, append the new entry, notify, return the new list. \<open>actionUserId\<close> is
  \<^verbatim>\<open>action.userId\<close>.
\<close>

definition upsertOnJoin ::
  "string option \<Rightarrow> CollaborativeUser \<Rightarrow> CollaborativeUser list \<Rightarrow>
     CollaborativeUser list \<times> effect list" where
  "upsertOnJoin actionUserId newUser current =
     (let filtered = filter (\<lambda>u. u_id u \<noteq> actionUserId) current;
          updated = filtered @ [newUser]
      in (updated, [OnPresenceChange updated]))"

text \<open>The state updater of the leave handler (lines 251-255).\<close>

definition removeOnLeave ::
  "string option \<Rightarrow> CollaborativeUser list \<Rightarrow> CollaborativeUser list \<times> effect list" where
  "removeOnLeave actionUserId current =
     (let updated = filter (\<lambda>u. u_id u \<noteq> actionUserId) current
      in (updated, [OnPresenceChange updated]))"

text \<open>Lines 226-231: the entry built from the payload; no email, no cursor.\<close>

definition newUserOf :: "WireObject \<Rightarrow> string \<Rightarrow> CollaborativeUser" where
  "newUserOf action online =
     \<lparr> u_id = w_userId action, u_name = w_userName action, u_email = None,
       u_cursor = None, u_color = w_userColor action, u_online_at = online \<rparr>"

section \<open>Receive handlers\<close>

text \<open>
  Each handler returns the error it throws (\<open>Inl\<close>) or what it did (\<open>Inr\<close>). \<open>userId\<close> is
  the local user's id, a non-empty string (line 201).
\<close>

text \<open>The \<^verbatim>\<open>mind_map_action\<close> handler, lines 207-214.\<close>

definition onMindMapAction :: "string \<Rightarrow> payload \<Rightarrow> js_error + effect list" where
  "onMindMapAction userId payload =
     (case properties payload of
        Inl e \<Rightarrow> Inl e
      | Inr action \<Rightarrow>
          if w_userId action = Some userId then Inr [] else Inr [OnAction payload])"

text \<open>The \<^verbatim>\<open>user_join\<close> handler, lines 217-240.\<close>

definition onUserJoin ::
  "(int \<Rightarrow> string) \<Rightarrow> string \<Rightarrow> payload \<Rightarrow> CollaborativeUser list \<Rightarrow>
     js_error + CollaborativeUser list \<times> effect list" where
  "onUserJoin render userId payload current =
     (case properties payload of
        Inl e \<Rightarrow> Inl e
      | Inr action \<Rightarrow>
          if w_userId action = Some userId then Inr (current, [])
          else (case toISOString render (w_timestamp action) of
                  Inl e \<Rightarrow> Inl e
                | Inr online \<Rightarrow>
                    Inr (upsertOnJoin (w_userId action) (newUserOf action online) current)))"

text \<open>The \<^verbatim>\<open>user_leave\<close> handler, lines 243-257.\<close>

definition onUserLeave ::
  "string \<Rightarrow> payload \<Rightarrow> CollaborativeUser list \<Rightarrow>
     js_error + CollaborativeUser list \<times> effect list" where
  "onUserLeave userId payload current =
     (case properties payload of
        Inl e \<Rightarrow> Inl e
      | Inr action \<Rightarrow>
          if w_userId action = Some userId then Inr (current, [])
          else Inr (removeOnLeave (w_userId action) current))"

section \<open>Color assignment\<close>

text \<open>A result of \<^verbatim>\<open>Math.random()\<close>: at least 0 and less than 1.\<close>

typedef random01 = "{r :: rat. 0 \<le> r \<and> r < 1}"
  by (rule exI [of _ 0]) simp

text \<open>
  Lines 267-272. \<^verbatim>\<open>availableColors[0]\<close> is \<^verbatim>\<open>undefined\<close> on the empty list, and
  \<^verbatim>\<open>||\<close> takes its right operand when the left one is \<^verbatim>\<open>undefined\<close> or the empty string.
\<close>

definition randomColor :: "random01 \<Rightarrow> string" where
  "randomColor random =
     USER_COLORS ! nat \<lfloor>Rep_random01 random * of_nat (length USER_COLORS)\<rfloor>"

definition assignColor :: "random01 \<Rightarrow> CollaborativeUser list \<Rightarrow> string" where
  "assignColor random currentUsers =
     (let availableColors =
            filter (\<lambda>color. \<not> list_ex (\<lambda>user. u_color user = Some color) currentUsers)
              USER_COLORS
      in case availableColors of
           [] \<Rightarrow> randomColor random
         | first # _ \<Rightarrow> if first \<noteq> [] then first else randomColor random)"

section \<open>Hook state\<close>

text \<open>The closure of a scheduled join announcement (lines 115-134) under its timer handle.\<close>

record JoinTimer =
  t_handle :: nat
  t_channel :: string
  t_userId :: string
  t_userName :: string
  t_userColor :: string

text \<open>
  The \<^verbatim>\<open>useState\<close> cells and refs of the hook (lines 68-85), and \<open>timers\<close>, the host's
  pending timeouts set by this hook. A timer handle is a positive integer (browser) or
  an object (Node), truthy in both, so \<^verbatim>\<open>if (announceTimeoutRef.current)\<close> asks whether
  the ref holds a handle.
\<close>

record HookState =
  isConnected :: bool
  collaborativeUsers :: "CollaborativeUser list"
  userColor :: string
  shouldAnnounceJoin :: bool
  channel :: "string option"
  userColorRef :: string
  isConnectedRef :: bool
  announceTimeoutRef :: "nat option"
  timers :: "JoinTimer list"

text \<open>Lines 68-85: the state of a freshly mounted hook.\<close>

definition initialState :: HookState where
  "initialState = \<lparr> isConnected = False, collaborativeUsers = [], userColor = ''#3B82F6'',
     shouldAnnounceJoin = False, channel = None, userColorRef = ''#3B82F6'',
     isConnectedRef = False, announceTimeoutRef = None, timers = [] \<rparr>"

text \<open>Lines 97-103: after a render the refs follow the state.\<close>

definition syncRefs :: "HookState \<Rightarrow> HookState" where
  "syncRefs st = st \<lparr> userColorRef := userColor st, isConnectedRef := isConnected st \<rparr>"

definition clearTimeout :: "nat \<Rightarrow> JoinTimer list \<Rightarrow> JoinTimer list" where
  "clearTimeout h pending = filter (\<lambda>t. t_handle t \<noteq> h) pending"

text \<open>The subscribe callback, lines 260-293.\<close>

datatype subscribe_status = SUBSCRIBED | CHANNEL_ERROR | TIMED_OUT | CLOSED | OTHER_STATUS

definition onSubscribeStatus ::
  "string \<Rightarrow> subscribe_status \<Rightarrow> random01 \<Rightarrow> HookState \<Rightarrow> effect list \<times> HookState" where
  "onSubscribeStatus room status random st =
     (case status of
        SUBSCRIBED \<Rightarrow>
          ([ConsoleLog ''Realtime collaboration connected to:''],
           st \<lparr> isConnected := True,
                userColor := assignColor random (collaborativeUsers st),
                shouldAnnounceJoin := True \<rparr>)
      | CHANNEL_ERROR \<Rightarrow>
          ([ConsoleError ''Realtime channel error''], st \<lparr> isConnected := False \<rparr>)
      | TIMED_OUT \<Rightarrow>
          ([ConsoleError ''Realtime connection timed out''], st \<lparr> isConnected := False \<rparr>)
      | CLOSED \<Rightarrow>
          ([ConsoleLog ''Realtime channel closed''], st \<lparr> isConnected := False \<rparr>)
      | OTHER_STATUS \<Rightarrow>
          ([ConsoleLog ''Realtime collaboration status:''], st \<lparr> isConnected := False \<rparr>))"

section \<open>Join announcement\<close>


text \<open>The cleanup of the announcement effect, lines 136-141.\<close>

definition announceJoinCleanup :: "HookState \<Rightarrow> effect list \<times> HookState" where
  "announceJoinCleanup st =
     (case announceTimeoutRef st of
        Some h \<Rightarrow>
          ([ClearTimeout h],
           st \<lparr> timers := clearTimeout h (timers st), announceTimeoutRef := None \<rparr>)
      | None \<Rightarrow> ([], st))"


section \<open>Action broadcaster\<close>

text \<open>
  \<^verbatim>\<open>broadcastAction\<close>, lines 145-173. The send stands in a \<^verbatim>\<open>try\<close> whose \<^verbatim>\<open>catch\<close>
  only warns, so a failed send (\<open>sent = False\<close>) is not an error of the function.
\<close>

definition broadcastAction ::
  "string \<Rightarrow> string \<Rightarrow> int \<Rightarrow> bool \<Rightarrow> HookState \<Rightarrow> ActionInput \<Rightarrow> js_error + effect list" where
  "broadcastAction userId userName now sent st action =
     (case channel st of
        None \<Rightarrow> Inr []
      | Some ch \<Rightarrow>
          if \<not> isConnectedRef st then Inr []
          else
            (let fullAction = \<lparr> a_type = i_type action, a_nodeId = i_nodeId action,
                   a_position = i_position action, a_userId = userId,
                   a_userName = userName, a_userColor = userColorRef st,
                   a_timestamp = now, a_data = i_data action \<rparr>
             in if sent then Inr [ChannelSend ch EVENT_ACTION_TYPE fullAction]
                else Inr [ChannelSend ch EVENT_ACTION_TYPE fullAction,
                          ConsoleWarn ''Failed to broadcast action:'']))"

text \<open>\<^verbatim>\<open>updateCursorPosition\<close>, lines 176-184.\<close>

definition updateCursorPosition ::
  "string \<Rightarrow> string \<Rightarrow> int \<Rightarrow> bool \<Rightarrow> HookState \<Rightarrow> real \<Rightarrow> real \<Rightarrow> js_error + effect list" where
  "updateCursorPosition userId userName now sent st px py =
     broadcastAction userId userName now sent st
       \<lparr> i_type = cursor_move, i_nodeId = None,
         i_position = Some \<lparr> pos_x = px, pos_y = py \<rparr>, i_data = None \<rparr>"

text \<open>
  \<^verbatim>\<open>updateSelectedNode\<close>, lines 187-197. \<open>None\<close> is \<^verbatim>\<open>null\<close>; \<^verbatim>\<open>if (nodeId)\<close> is
  false for \<^verbatim>\<open>null\<close> and for the empty string.
\<close>

definition updateSelectedNode ::
  "string \<Rightarrow> string \<Rightarrow> int \<Rightarrow> bool \<Rightarrow> HookState \<Rightarrow> string option \<Rightarrow> js_error + effect list" where
  "updateSelectedNode userId userName now sent st nodeId =
     (case nodeId of
        None \<Rightarrow> Inr []
      | Some n \<Rightarrow>
          if n = [] then Inr []
          else broadcastAction userId userName now sent st
                 \<lparr> i_type = node_select, i_nodeId = Some n,
                   i_position = None, i_data = None \<rparr>)"

section \<open>Teardown\<close>

text \<open>
  What the host's \<^verbatim>\<open>navigator.sendBeacon\<close> path does when it is there: the beacon is handed
  over (\<^verbatim>\<open>sendBeacon\<close> returns the given boolean), or \<^verbatim>\<open>JSON.stringify\<close> throws before
  the call, or \<^verbatim>\<open>sendBeacon\<close> itself throws.
\<close>

datatype beacon = BeaconReturns bool | StringifyThrows | SendBeaconThrows

text \<open>
  The cleanup of the channel effect, lines 298-355. \<open>newChannel\<close> is the topic of the
  channel the effect opened; \<open>sendBeacon\<close> is \<open>None\<close> where \<^verbatim>\<open>navigator\<close> or
  \<^verbatim>\<open>navigator.sendBeacon\<close> is missing. The fallback \<^verbatim>\<open>send\<close> is not awaited: its
  \<^verbatim>\<open>.catch\<close> runs after the cleanup has returned.
\<close>

definition leaveActionOf :: "string \<Rightarrow> string \<Rightarrow> int \<Rightarrow> HookState \<Rightarrow> MindMapAction" where
  "leaveActionOf userId userName now st =
     \<lparr> a_type = user_leave, a_nodeId = None, a_position = None, a_userId = userId,
       a_userName = userName, a_userColor = userColorRef st, a_timestamp = now,
       a_data = None \<rparr>"

definition announceLeave ::
  "string \<Rightarrow> string \<Rightarrow> beacon option \<Rightarrow> MindMapAction \<Rightarrow> effect list" where
  "announceLeave chatId newChannel sendBeacon leaveAction =
     (case sendBeacon of
        Some (BeaconReturns queued) \<Rightarrow>
          [SendBeacon ''/api/collaboration/beacon'' chatId leaveAction]
      | Some StringifyThrows \<Rightarrow>
          [ConsoleWarn ''Failed to send user leave beacon:'',
           ChannelSend newChannel EVENT_USER_LEAVE_TYPE leaveAction]
      | Some SendBeaconThrows \<Rightarrow>
          [SendBeacon ''/api/collaboration/beacon'' chatId leaveAction,
           ConsoleWarn ''Failed to send user leave beacon:'',
           ChannelSend newChannel EVENT_USER_LEAVE_TYPE leaveAction]
      | None \<Rightarrow> [ChannelSend newChannel EVENT_USER_LEAVE_TYPE leaveAction])"

definition cleanup ::
  "string \<Rightarrow> string \<Rightarrow> string \<Rightarrow> string \<Rightarrow> beacon option \<Rightarrow> int \<Rightarrow> HookState \<Rightarrow>
     effect list \<times> HookState" where
  "cleanup chatId userId userName newChannel sendBeacon now st =
     (let cancelled = announceJoinCleanup st;
          left = (if isConnectedRef st
                  then announceLeave chatId newChannel sendBeacon
                         (leaveActionOf userId userName now st)
                  else [])
      in (fst cancelled @ left @ [RemoveChannel newChannel],
          (snd cancelled) \<lparr> channel := None, isConnected := False,
                            collaborativeUsers := [], shouldAnnounceJoin := False \<rparr>))"

section \<open>Observations on states and traces\<close>





section \<open>Channel topic: the claim\<close>

text \<open>
  Claim C9. The topic is the text \<^verbatim>\<open>chat-collaboration:\<close> followed by the chat id, and
  nothing else enters it: whenever a session is opened for a chat (both ids non-empty,
  line 201), the channel it opens is the one of that topic, whoever the user is.
\<close>

theorem topic_deterministic:
  "roomName chatId = ''chat-collaboration:'' @ chatId \<and>
   (chatId \<noteq> [] \<and> userId \<noteq> [] \<and> userId' \<noteq> [] \<longrightarrow>
      openChannel chatId userId userName = Some (''chat-collaboration:'' @ chatId) \<and>
      openChannel chatId userId' userName' = openChannel chatId userId userName)"
  by (simp add: roomName_def openChannel_def)

theorem topic_deterministic_witness:
  "roomName ''c1'' = ''chat-collaboration:c1'' \<and>
   openChannel ''c1'' ''u1'' ''Ann'' = Some ''chat-collaboration:c1'' \<and>
   openChannel ''c1'' ''u2'' ''Bob'' = openChannel ''c1'' ''u1'' ''Ann''"
  using topic_deterministic [of "''c1''" "''u1''" "''u2''" "''Ann''" "''Bob''"]
  by simp

section \<open>Self-echo suppression\<close>

text \<open>
  Claim C2. An inbound envelope whose \<^verbatim>\<open>userId\<close> is the local user's makes each of the
  three handlers return at once: no callback is dispatched and the participant list is
  the one it was. Nothing is asked of the other fields of the envelope.
\<close>

theorem self_echo_suppressed:
  assumes "w_userId action = Some userId"
  shows "onMindMapAction userId (Object action) = Inr [] \<and>
         onUserJoin render userId (Object action) current = Inr (current, []) \<and>
         onUserLeave userId (Object action) current = Inr (current, [])"
  using assms by (simp add: onMindMapAction_def onUserJoin_def onUserLeave_def)

theorem self_echo_suppressed_witness:
  "w_userId \<lparr> w_type = Some user_leave, w_nodeId = None, w_position = None,
      w_userId = Some ''u1'', w_userName = Some ''Ann'', w_userColor = Some ''#3B82F6'',
      w_timestamp = Some 1700000000000, w_data = None \<rparr> = Some ''u1'' \<and>
   onMindMapAction ''u1'' (Object \<lparr> w_type = Some user_leave, w_nodeId = None,
      w_position = None, w_userId = Some ''u1'', w_userName = Some ''Ann'',
      w_userColor = Some ''#3B82F6'', w_timestamp = Some 1700000000000,
      w_data = None \<rparr>) = Inr [] \<and>
   onUserJoin (\<lambda>ms. ''2023-11-14T22:13:20.000Z'') ''u1'' (Object \<lparr> w_type = Some user_leave,
      w_nodeId = None, w_position = None, w_userId = Some ''u1'',
      w_userName = Some ''Ann'', w_userColor = Some ''#3B82F6'',
      w_timestamp = Some 1700000000000, w_data = None \<rparr>)
     [\<lparr> u_id = Some ''u2'', u_name = Some ''Bob'', u_email = None, u_cursor = None,
        u_color = Some ''#EF4444'', u_online_at = ''2023-11-14T22:13:19.000Z'' \<rparr>] =
     Inr ([\<lparr> u_id = Some ''u2'', u_name = Some ''Bob'', u_email = None, u_cursor = None,
             u_color = Some ''#EF4444'', u_online_at = ''2023-11-14T22:13:19.000Z'' \<rparr>], []) \<and>
   onUserLeave ''u1'' (Object \<lparr> w_type = Some user_leave, w_nodeId = None,
      w_position = None, w_userId = Some ''u1'', w_userName = Some ''Ann'',
      w_userColor = Some ''#3B82F6'', w_timestamp = Some 1700000000000,
      w_data = None \<rparr>)
     [\<lparr> u_id = Some ''u2'', u_name = Some ''Bob'', u_email = None, u_cursor = None,
        u_color = Some ''#EF4444'', u_online_at = ''2023-11-14T22:13:19.000Z'' \<rparr>] =
     Inr ([\<lparr> u_id = Some ''u2'', u_name = Some ''Bob'', u_email = None, u_cursor = None,
             u_color = Some ''#EF4444'', u_online_at = ''2023-11-14T22:13:19.000Z'' \<rparr>], [])"
  using self_echo_suppressed [where userId = "''u1''"
      and action = "\<lparr> w_type = Some user_leave, w_nodeId = None, w_position = None,
        w_userId = Some ''u1'', w_userName = Some ''Ann'', w_userColor = Some ''#3B82F6'',
        w_timestamp = Some 1700000000000, w_data = None \<rparr>"
      and render = "\<lambda>ms. ''2023-11-14T22:13:20.000Z''"
      and current = "[\<lparr> u_id = Some ''u2'', u_name = Some ''Bob'', u_email = None,
        u_cursor = None, u_color = Some ''#EF4444'',
        u_online_at = ''2023-11-14T22:13:19.000Z'' \<rparr>]"]
  by simp

section \<open>Broadcasting\<close>

text \<open>
  Claim C5. Without a channel, or before the connection is up, \<^verbatim>\<open>broadcastAction\<close> sends
  nothing and raises nothing. Once connected it sends, on the \<^verbatim>\<open>mind_map_action\<close> event
  of the channel, one envelope: the fields of its argument as they were, and beside
  them the local user's id and name, the color held in \<^verbatim>\<open>userColorRef\<close> and the current
  time. A send that fails adds a warning and no error.
\<close>

theorem broadcastAction_envelope:
  "((channel st = None \<or> \<not> isConnectedRef st) \<longrightarrow>
      broadcastAction userId userName now sent st action = Inr []) \<and>
   (channel st = Some room \<and> isConnectedRef st \<longrightarrow>
      (\<exists>fullAction warnings.
         broadcastAction userId userName now sent st action =
           Inr (ChannelSend room EVENT_ACTION_TYPE fullAction # warnings) \<and>
         warnings = (if sent then [] else [ConsoleWarn ''Failed to broadcast action:'']) \<and>
         a_type fullAction = i_type action \<and> a_nodeId fullAction = i_nodeId action \<and>
         a_position fullAction = i_position action \<and> a_data fullAction = i_data action \<and>
         a_userId fullAction = userId \<and> a_userName fullAction = userName \<and>
         a_userColor fullAction = userColorRef st \<and> a_timestamp fullAction = now))"
  by (auto simp add: broadcastAction_def Let_def split: option.splits)

theorem broadcastAction_envelope_witness:
  "channel initialState = None \<and>
   broadcastAction ''u2'' ''Bob'' 1700000000000 True initialState
     \<lparr> i_type = cursor_move, i_nodeId = None,
       i_position = Some \<lparr> pos_x = 120, pos_y = 80 \<rparr>, i_data = None \<rparr> = Inr [] \<and>
   channel (initialState \<lparr> channel := Some ''chat-collaboration:c1'',
              isConnectedRef := True \<rparr>) = Some ''chat-collaboration:c1'' \<and>
   isConnectedRef (initialState \<lparr> channel := Some ''chat-collaboration:c1'',
              isConnectedRef := True \<rparr>) \<and>
   broadcastAction ''u2'' ''Bob'' 1700000000000 True
     (initialState \<lparr> channel := Some ''chat-collaboration:c1'', isConnectedRef := True \<rparr>)
     \<lparr> i_type = cursor_move, i_nodeId = None,
       i_position = Some \<lparr> pos_x = 120, pos_y = 80 \<rparr>, i_data = None \<rparr> =
     Inr [ChannelSend ''chat-collaboration:c1'' ''mind_map_action''
            \<lparr> a_type = cursor_move, a_nodeId = None,
              a_position = Some \<lparr> pos_x = 120, pos_y = 80 \<rparr>, a_userId = ''u2'',
              a_userName = ''Bob'', a_userColor = ''#3B82F6'',
              a_timestamp = 1700000000000, a_data = None \<rparr>]"
  using broadcastAction_envelope [where st = initialState and userId = "''u2''"
      and userName = "''Bob''" and now = 1700000000000 and sent = True
      and action = "\<lparr> i_type = cursor_move, i_nodeId = None,
        i_position = Some \<lparr> pos_x = 120, pos_y = 80 \<rparr>, i_data = None \<rparr>"]
    broadcastAction_envelope [where st = "initialState \<lparr> channel :=
        Some ''chat-collaboration:c1'', isConnectedRef := True \<rparr>" and userId = "''u2''"
      and userName = "''Bob''" and now = 1700000000000 and sent = True
      and room = "''chat-collaboration:c1''"
      and action = "\<lparr> i_type = cursor_move, i_nodeId = None,
        i_position = Some \<lparr> pos_x = 120, pos_y = 80 \<rparr>, i_data = None \<rparr>"]
  by (simp add: initialState_def broadcastAction_def EVENT_ACTION_TYPE_def)

text \<open>
  Claim C10. \<^verbatim>\<open>updateSelectedNode(null)\<close> sends nothing. Whatever
  \<^verbatim>\<open>updateSelectedNode\<close> sends on the channel is a \<^verbatim>\<open>node_select\<close> envelope on the
  \<^verbatim>\<open>mind_map_action\<close> event whose \<^verbatim>\<open>nodeId\<close> is the argument, which then is not
  \<^verbatim>\<open>null\<close>; and with a connected channel a non-empty node id does send that envelope.
\<close>

theorem updateSelectedNode_null:
  "updateSelectedNode userId userName now sent st None = Inr [] \<and>
   (\<forall>effs room event a.
      updateSelectedNode userId userName now sent st nodeId = Inr effs \<longrightarrow>
      ChannelSend room event a \<in> set effs \<longrightarrow>
        nodeId \<noteq> None \<and> a_nodeId a = nodeId \<and> a_type a = node_select \<and>
        event = EVENT_ACTION_TYPE) \<and>
   (channel st = Some room' \<and> isConnectedRef st \<and> n \<noteq> [] \<longrightarrow>
      (\<exists>a warnings.
         updateSelectedNode userId userName now sent st (Some n) =
           Inr (ChannelSend room' EVENT_ACTION_TYPE a # warnings) \<and>
         a_type a = node_select \<and> a_nodeId a = Some n))"
  by (auto simp add: updateSelectedNode_def broadcastAction_def Let_def
      split: option.splits if_splits)

theorem updateSelectedNode_null_witness:
  "updateSelectedNode ''u2'' ''Bob'' 1700000000000 True
     (initialState \<lparr> channel := Some ''chat-collaboration:c1'', isConnectedRef := True \<rparr>)
     None = Inr [] \<and>
   updateSelectedNode ''u2'' ''Bob'' 1700000000000 True
     (initialState \<lparr> channel := Some ''chat-collaboration:c1'', isConnectedRef := True \<rparr>)
     (Some ''n7'') =
     Inr [ChannelSend ''chat-collaboration:c1'' ''mind_map_action''
            \<lparr> a_type = node_select, a_nodeId = Some ''n7'', a_position = None,
              a_userId = ''u2'', a_userName = ''Bob'', a_userColor = ''#3B82F6'',
              a_timestamp = 1700000000000, a_data = None \<rparr>]"
  using updateSelectedNode_null [where st = "initialState \<lparr> channel :=
        Some ''chat-collaboration:c1'', isConnectedRef := True \<rparr>" and userId = "''u2''"
      and userName = "''Bob''" and now = 1700000000000 and sent = True
      and room' = "''chat-collaboration:c1''" and n = "''n7''" and nodeId = "Some ''n7''"]
  by (simp add: initialState_def updateSelectedNode_def broadcastAction_def
      EVENT_ACTION_TYPE_def)

section \<open>Teardown: order and final state\<close>

subsection \<open>Pending timeouts are the one the ref holds\<close>















subsection \<open>The order of the teardown\<close>



subsection \<open>The state after the teardown\<close>

text \<open>
  Claim C4, as the code has it. After the cleanup the participant list is empty, the
  connected flag is false, no channel is stored, no announcement is due and no timeout
  is held; after the next render the connected ref is false too. The stored color and
  its ref are what they were before: the cleanup does not touch them.
\<close>

theorem cleanup_state:
  "collaborativeUsers (snd (cleanup chatId userId userName newChannel sendBeacon now st)) = [] \<and>
   \<not> isConnected (snd (cleanup chatId userId userName newChannel sendBeacon now st)) \<and>
   channel (snd (cleanup chatId userId userName newChannel sendBeacon now st)) = None \<and>
   \<not> shouldAnnounceJoin (snd (cleanup chatId userId userName newChannel sendBeacon now st)) \<and>
   announceTimeoutRef (snd (cleanup chatId userId userName newChannel sendBeacon now st)) = None \<and>
   userColor (snd (cleanup chatId userId userName newChannel sendBeacon now st)) = userColor st \<and>
   userColorRef (snd (cleanup chatId userId userName newChannel sendBeacon now st)) = userColorRef st \<and>
   \<not> isConnectedRef (syncRefs (snd (cleanup chatId userId userName newChannel sendBeacon now st)))"
  by (simp add: cleanup_def announceJoinCleanup_def syncRefs_def Let_def split: option.splits)

text \<open>
  Claim C4 as stated fails: a hook that was assigned the second palette color still
  stores it after the cleanup, neither empty nor back at the initial color.
\<close>

theorem cleanup_keeps_color_counterexample:
  "userColor (snd (cleanup ''c1'' ''u1'' ''Ann'' ''chat-collaboration:c1'' None 1000
     (initialState \<lparr> isConnected := True, userColor := ''#EF4444'',
        channel := Some ''chat-collaboration:c1'', userColorRef := ''#EF4444'',
        isConnectedRef := True \<rparr>))) = ''#EF4444'' \<and>
   userColor (snd (cleanup ''c1'' ''u1'' ''Ann'' ''chat-collaboration:c1'' None 1000
     (initialState \<lparr> isConnected := True, userColor := ''#EF4444'',
        channel := Some ''chat-collaboration:c1'', userColorRef := ''#EF4444'',
        isConnectedRef := True \<rparr>))) \<noteq> userColor initialState"
  by (simp add: cleanup_def announceJoinCleanup_def initialState_def Let_def)

section \<open>Color assignment: the claim\<close>

lemma USER_COLORS_length: "length USER_COLORS = 8"
  by (simp add: USER_COLORS_def)

lemma USER_COLORS_distinct: "distinct USER_COLORS"
  by (simp add: USER_COLORS_def)

lemma USER_COLORS_nonempty: "[] \<notin> set USER_COLORS"
  by (simp add: USER_COLORS_def)

lemma random_index:
  "0 \<le> \<lfloor>Rep_random01 random * 8\<rfloor> \<and> \<lfloor>Rep_random01 random * 8\<rfloor> < 8"
proof -
  have r: "0 \<le> Rep_random01 random" "Rep_random01 random < 1"
    using Rep_random01 [of random] by auto
  have "0 \<le> Rep_random01 random * 8" using r by simp
  moreover have "Rep_random01 random * 8 < 8" using r by simp
  ultimately show ?thesis by (simp add: floor_less_iff)
qed

lemma randomColor_index:
  "\<exists>k < 8. randomColor random = USER_COLORS ! k \<and>
     k = nat \<lfloor>Rep_random01 random * 8\<rfloor>"
proof -
  have "nat \<lfloor>Rep_random01 random * 8\<rfloor> < 8"
    using random_index [of random] by linarith
  then show ?thesis by (simp add: randomColor_def USER_COLORS_length)
qed

lemma randomColor_palette: "randomColor random \<in> set USER_COLORS"
  using randomColor_index [of random] USER_COLORS_length by (metis nth_mem)

lemma randomColor_interval:
  assumes "k < 8"
  shows "randomColor random = USER_COLORS ! k \<longleftrightarrow>
         of_nat k / 8 \<le> Rep_random01 random \<and> Rep_random01 random < (of_nat k + 1) / 8"
proof -
  obtain j where j: "j < 8" "randomColor random = USER_COLORS ! j"
    "j = nat \<lfloor>Rep_random01 random * 8\<rfloor>"
    using randomColor_index by blast
  have "USER_COLORS ! j = USER_COLORS ! k \<longleftrightarrow> j = k"
    using j(1) assms USER_COLORS_distinct USER_COLORS_length
    by (simp add: nth_eq_iff_index_eq)
  moreover have "j = k \<longleftrightarrow> \<lfloor>Rep_random01 random * 8\<rfloor> = int k"
    using j(3) random_index [of random] by auto
  moreover have "\<lfloor>Rep_random01 random * 8\<rfloor> = int k \<longleftrightarrow>
      of_nat k / 8 \<le> Rep_random01 random \<and> Rep_random01 random < (of_nat k + 1) / 8"
    by (simp add: floor_eq_iff field_simps)
  ultimately show ?thesis using j(2) by simp
qed

lemma list_ex_color:
  "list_ex (\<lambda>user. u_color user = Some c) currentUsers \<longleftrightarrow>
   Some c \<in> u_color ` set currentUsers"
  by (simp add: list_ex_iff image_iff) (metis)

lemma palette_exhausted:
  assumes "\<forall>c \<in> set USER_COLORS. Some c \<in> u_color ` set currentUsers"
  shows "length USER_COLORS \<le> card (Option.these (u_color ` set currentUsers))"
proof -
  have "set USER_COLORS \<subseteq> Option.these (u_color ` set currentUsers)"
    using assms by (auto simp add: in_these_eq)
  then have "card (set USER_COLORS) \<le> card (Option.these (u_color ` set currentUsers))"
    by (intro card_mono) (auto simp add: Option.these_def)
  then show ?thesis using USER_COLORS_distinct by (simp add: distinct_card)
qed

lemma assignColor_cases:
  "(\<exists>used rest. USER_COLORS = used @ assignColor random currentUsers # rest \<and>
       (\<forall>c \<in> set used. Some c \<in> u_color ` set currentUsers) \<and>
       Some (assignColor random currentUsers) \<notin> u_color ` set currentUsers) \<or>
   ((\<forall>c \<in> set USER_COLORS. Some c \<in> u_color ` set currentUsers) \<and>
      assignColor random currentUsers = randomColor random)"
proof (cases "filter (\<lambda>color. \<not> list_ex (\<lambda>user. u_color user = Some color) currentUsers) USER_COLORS")
  case Nil
  then have "\<forall>c \<in> set USER_COLORS. Some c \<in> u_color ` set currentUsers"
    by (simp add: filter_empty_conv list_ex_color)
  moreover have "assignColor random currentUsers = randomColor random"
    using Nil by (simp add: assignColor_def)
  ultimately show ?thesis by blast
next
  case (Cons first others)
  then obtain used rest where split: "USER_COLORS = used @ first # rest"
      "\<forall>u \<in> set used. Some u \<in> u_color ` set currentUsers"
      "Some first \<notin> u_color ` set currentUsers"
    by (auto simp add: filter_eq_Cons_iff list_ex_color)
  have "first \<in> set USER_COLORS" using split(1) by (metis in_set_conv_decomp)
  then have "first \<noteq> []" using USER_COLORS_nonempty by auto
  then have "assignColor random currentUsers = first"
    using Cons by (simp add: assignColor_def)
  then show ?thesis using split by blast
qed


lemma assignColor_palette: "assignColor random currentUsers \<in> set USER_COLORS"
proof -
  consider (unused) used rest where "USER_COLORS = used @ assignColor random currentUsers # rest"
    | (exhausted) "assignColor random currentUsers = randomColor random"
    using assignColor_cases [of random currentUsers] by blast
  then show ?thesis
  proof cases
    case unused
    have "assignColor random currentUsers \<in> set (used @ assignColor random currentUsers # rest)"
      by simp
    then show ?thesis using unused by simp
  next
    case exhausted
    then show ?thesis using randomColor_palette [of random] by simp
  qed
qed

text \<open>
  Claim C6. The assigned color is always one of the eight palette colors. When some
  palette color is carried by no participant, it is the first such color in palette
  order, so it differs from every color in use; that is the case whenever fewer than
  eight distinct colors are in use. When every palette color is in use, it is the
  palette color at index \<open>\<lfloor>8 r\<rfloor>\<close> for the value \<open>r\<close> of \<^verbatim>\<open>Math.random()\<close>: each of the
  eight colors is the result on exactly one interval of \<open>r\<close> of length one eighth, which
  is what uniform means for a uniform \<open>r\<close>. The function is total, so it returns.
\<close>

theorem assignColor_first_unused:
  "assignColor random currentUsers \<in> set USER_COLORS \<and> length USER_COLORS = 8 \<and>
   ((\<exists>c \<in> set USER_COLORS. Some c \<notin> u_color ` set currentUsers) \<longrightarrow>
      (\<exists>used rest.
         USER_COLORS = used @ assignColor random currentUsers # rest \<and>
         (\<forall>c \<in> set used. Some c \<in> u_color ` set currentUsers) \<and>
         Some (assignColor random currentUsers) \<notin> u_color ` set currentUsers)) \<and>
   (card (Option.these (u_color ` set currentUsers)) < length USER_COLORS \<longrightarrow>
      Some (assignColor random currentUsers) \<notin> u_color ` set currentUsers) \<and>
   ((\<forall>c \<in> set USER_COLORS. Some c \<in> u_color ` set currentUsers) \<longrightarrow>
      assignColor random currentUsers =
        USER_COLORS ! nat \<lfloor>Rep_random01 random * of_nat (length USER_COLORS)\<rfloor> \<and>
      (\<forall>k < length USER_COLORS.
         assignColor random currentUsers = USER_COLORS ! k \<longleftrightarrow>
           of_nat k / 8 \<le> Rep_random01 random \<and> Rep_random01 random < (of_nat k + 1) / 8))"
proof (intro conjI impI)
  show "assignColor random currentUsers \<in> set USER_COLORS"
    by (rule assignColor_palette)
next
  show "length USER_COLORS = 8" by (rule USER_COLORS_length)
next
  assume "\<exists>c \<in> set USER_COLORS. Some c \<notin> u_color ` set currentUsers"
  then show "\<exists>used rest.
         USER_COLORS = used @ assignColor random currentUsers # rest \<and>
         (\<forall>c \<in> set used. Some c \<in> u_color ` set currentUsers) \<and>
         Some (assignColor random currentUsers) \<notin> u_color ` set currentUsers"
    using assignColor_cases [of random currentUsers] by blast
next
  assume few: "card (Option.these (u_color ` set currentUsers)) < length USER_COLORS"
  have "\<not> (\<forall>c \<in> set USER_COLORS. Some c \<in> u_color ` set currentUsers)"
    using few palette_exhausted [of currentUsers] by auto
  then show "Some (assignColor random currentUsers) \<notin> u_color ` set currentUsers"
    using assignColor_cases [of random currentUsers] by blast
next
  assume full: "\<forall>c \<in> set USER_COLORS. Some c \<in> u_color ` set currentUsers"
  have "assignColor random currentUsers \<in> set USER_COLORS"
    by (rule assignColor_palette)
  then have taken: "Some (assignColor random currentUsers) \<in> u_color ` set currentUsers"
    using full by blast
  consider (unused) "Some (assignColor random currentUsers) \<notin> u_color ` set currentUsers"
    | (exhausted) "assignColor random currentUsers = randomColor random"
    using assignColor_cases [of random currentUsers] by blast
  then have pick: "assignColor random currentUsers = randomColor random"
  proof cases
    case unused
    then show ?thesis using taken by simp
  next
    case exhausted
    then show ?thesis .
  qed
  show "assignColor random currentUsers =
        USER_COLORS ! nat \<lfloor>Rep_random01 random * of_nat (length USER_COLORS)\<rfloor>"
    unfolding pick by (simp add: randomColor_def)
  show "\<forall>k < length USER_COLORS.
         assignColor random currentUsers = USER_COLORS ! k \<longleftrightarrow>
           of_nat k / 8 \<le> Rep_random01 random \<and> Rep_random01 random < (of_nat k + 1) / 8"
  proof (intro allI impI)
    fix k
    assume "k < length USER_COLORS"
    then have "k < 8" by (simp add: USER_COLORS_length)
    then show "assignColor random currentUsers = USER_COLORS ! k \<longleftrightarrow>
           of_nat k / 8 \<le> Rep_random01 random \<and> Rep_random01 random < (of_nat k + 1) / 8"
      unfolding pick by (rule randomColor_interval)
  qed
qed

theorem assignColor_first_unused_witness:
  "(\<exists>c \<in> set USER_COLORS. Some c \<notin> u_color ` set
      [\<lparr> u_id = Some ''u1'', u_name = Some ''Ann'', u_email = None, u_cursor = None,
         u_color = Some ''#3B82F6'', u_online_at = ''2023-11-14T22:13:20.000Z'' \<rparr>]) \<and>
   card (Option.these (u_color ` set
      [\<lparr> u_id = Some ''u1'', u_name = Some ''Ann'', u_email = None, u_cursor = None,
         u_color = Some ''#3B82F6'', u_online_at = ''2023-11-14T22:13:20.000Z'' \<rparr>]))
     < length USER_COLORS \<and>
   assignColor (Abs_random01 (1 / 2))
      [\<lparr> u_id = Some ''u1'', u_name = Some ''Ann'', u_email = None, u_cursor = None,
         u_color = Some ''#3B82F6'', u_online_at = ''2023-11-14T22:13:20.000Z'' \<rparr>]
     = ''#EF4444'' \<and>
   Some ''#EF4444'' \<notin> u_color ` set
      [\<lparr> u_id = Some ''u1'', u_name = Some ''Ann'', u_email = None, u_cursor = None,
         u_color = Some ''#3B82F6'', u_online_at = ''2023-11-14T22:13:20.000Z'' \<rparr>] \<and>
   list_all (\<lambda>c. Some c \<in> u_color ` set (map (\<lambda>c. \<lparr> u_id = Some c, u_name = None,
      u_email = None, u_cursor = None, u_color = Some c, u_online_at = [] \<rparr>) USER_COLORS))
      USER_COLORS \<and>
   assignColor (Abs_random01 (1 / 2)) (map (\<lambda>c. \<lparr> u_id = Some c, u_name = None,
      u_email = None, u_cursor = None, u_color = Some c, u_online_at = [] \<rparr>) USER_COLORS)
     = ''#8B5CF6''"
proof -
  let ?one = "[\<lparr> u_id = Some ''u1'', u_name = Some ''Ann'', u_email = None, u_cursor = None,
         u_color = Some ''#3B82F6'', u_online_at = ''2023-11-14T22:13:20.000Z'' \<rparr>]"
  let ?all = "map (\<lambda>c. \<lparr> u_id = Some c, u_name = None,
      u_email = None, u_cursor = None, u_color = Some c, u_online_at = [] \<rparr>) USER_COLORS"
  have free: "\<exists>c \<in> set USER_COLORS. Some c \<notin> u_color ` set ?one"
    by (simp add: USER_COLORS_def)
  have few: "card (Option.these (u_color ` set ?one)) < length USER_COLORS"
    by (simp add: USER_COLORS_def)
  have second: "assignColor (Abs_random01 (1 / 2)) ?one = ''#EF4444''"
    by (simp add: assignColor_def USER_COLORS_def)
  have full: "\<forall>c \<in> set USER_COLORS. Some c \<in> u_color ` set ?all"
    by (simp add: USER_COLORS_def)
  have half: "Rep_random01 (Abs_random01 (1 / 2)) = 1 / 2"
    by (simp add: Abs_random01_inverse)
  have fifth: "USER_COLORS ! nat \<lfloor>Rep_random01 (Abs_random01 (1 / 2)) *
      of_nat (length USER_COLORS)\<rfloor> = ''#8B5CF6''"
    unfolding half by (simp add: USER_COLORS_def)
  note thm1 = assignColor_first_unused [of "Abs_random01 (1 / 2)" ?one]
  note thm2 = assignColor_first_unused [of "Abs_random01 (1 / 2)" ?all]
  have a: "Some (assignColor (Abs_random01 (1 / 2)) ?one) \<notin> u_color ` set ?one"
    using thm1 few by blast
  have b: "assignColor (Abs_random01 (1 / 2)) ?all = ''#8B5CF6''"
    using thm2 full fifth by simp
  have c: "list_all (\<lambda>c. Some c \<in> u_color ` set ?all) USER_COLORS"
    using full by (simp add: list_all_iff)
  show ?thesis using free few second a b c by simp
qed

section \<open>Presence registry: joins\<close>

lemma properties_wire:
  "properties (wire a) = Inr \<lparr> w_type = Some (a_type a), w_nodeId = a_nodeId a,
     w_position = a_position a, w_userId = Some (a_userId a),
     w_userName = Some (a_userName a), w_userColor = Some (a_userColor a),
     w_timestamp = Some (a_timestamp a), w_data = a_data a \<rparr>"
  by (simp add: wire_def)

lemma upsertOnJoin_entries:
  assumes "u_id newUser = uid"
  shows "filter (\<lambda>u. u_id u = uid) (fst (upsertOnJoin uid newUser current)) = [newUser]"
  using assms by (simp add: upsertOnJoin_def Let_def)

lemma upsertOnJoin_again:
  assumes "u_id newUser = uid"
  shows "length (fst (upsertOnJoin uid other (fst (upsertOnJoin uid newUser current)))) =
         length (fst (upsertOnJoin uid newUser current))"
  using assms by (simp add: upsertOnJoin_def Let_def)

lemma upsertOnJoin_distinct:
  assumes "distinct (map u_id current)" and "u_id newUser = uid"
  shows "distinct (map u_id (fst (upsertOnJoin uid newUser current)))"
  using assms by (auto simp add: upsertOnJoin_def Let_def distinct_map_filter)

lemma removeOnLeave_distinct:
  assumes "distinct (map u_id current)"
  shows "distinct (map u_id (fst (removeOnLeave uid current)))"
  using assms by (simp add: removeOnLeave_def Let_def distinct_map_filter)

lemma onUserJoin_distinct:
  assumes "onUserJoin render userId payload current = Inr (updated, effs)"
    and "distinct (map u_id current)"
  shows "distinct (map u_id updated)"
proof (cases "properties payload")
  case (Inl e)
  then show ?thesis using assms(1) by (simp add: onUserJoin_def)
next
  case (Inr action)
  show ?thesis
  proof (cases "w_userId action = Some userId")
    case True
    then show ?thesis using assms Inr by (simp add: onUserJoin_def)
  next
    case False
    then obtain online where
      "updated = fst (upsertOnJoin (w_userId action) (newUserOf action online) current)"
      using assms(1) Inr
      by (auto simp add: onUserJoin_def split: sum.splits) (metis fst_conv)
    then show ?thesis
      using upsertOnJoin_distinct [OF assms(2), of "newUserOf action online" "w_userId action"]
      by (simp add: newUserOf_def)
  qed
qed

lemma onUserLeave_distinct:
  assumes "onUserLeave userId payload current = Inr (updated, effs)"
    and "distinct (map u_id current)"
  shows "distinct (map u_id updated)"
  using assms removeOnLeave_distinct [of current]
  by (auto simp add: onUserLeave_def split: sum.splits if_splits) (metis fst_conv)

lemma onUserJoin_remote:
  assumes "a_userId a \<noteq> userId" and "\<bar>a_timestamp a\<bar> \<le> 8640000000000000"
  shows "onUserJoin render userId (wire a) current =
         Inr (upsertOnJoin (Some (a_userId a))
                \<lparr> u_id = Some (a_userId a), u_name = Some (a_userName a), u_email = None,
                  u_cursor = None, u_color = Some (a_userColor a),
                  u_online_at = render (a_timestamp a) \<rparr> current)"
  using assms by (simp add: onUserJoin_def properties_wire toISOString_def newUserOf_def)

text \<open>
  Claim C1, as the code has it. A \<^verbatim>\<open>user_join\<close> of a remote user (its \<^verbatim>\<open>userId\<close> is not
  the local one) whose timestamp is a time value that Date can hold makes the join
  handler return a list with exactly one entry of that id, built from the name, the
  color and the printed timestamp of the event, and notify with that list. A second such
  join of the same user, whatever its timestamp, gives a list of the same length whose
  one entry of that id carries the fields of the second event. And no operation on the
  list breaks the rule of at most one entry per id: not the join handler nor the leave
  handler on any payload, not the subscribe callback, not the cleanup.
\<close>

theorem join_upsert:
  "(a_userId a \<noteq> userId \<and> \<bar>a_timestamp a\<bar> \<le> 8640000000000000 \<longrightarrow>
      (\<exists>updated.
         onUserJoin render userId (wire a) current = Inr (updated, [OnPresenceChange updated]) \<and>
         filter (\<lambda>u. u_id u = Some (a_userId a)) updated =
           [\<lparr> u_id = Some (a_userId a), u_name = Some (a_userName a), u_email = None,
              u_cursor = None, u_color = Some (a_userColor a),
              u_online_at = render (a_timestamp a) \<rparr>] \<and>
         (a_userId b = a_userId a \<and> \<bar>a_timestamp b\<bar> \<le> 8640000000000000 \<longrightarrow>
            (\<exists>again.
               onUserJoin render userId (wire b) updated = Inr (again, [OnPresenceChange again]) \<and>
               length again = length updated \<and>
               filter (\<lambda>u. u_id u = Some (a_userId a)) again =
                 [\<lparr> u_id = Some (a_userId b), u_name = Some (a_userName b), u_email = None,
                    u_cursor = None, u_color = Some (a_userColor b),
                    u_online_at = render (a_timestamp b) \<rparr>])))) \<and>
   (distinct (map u_id current) \<longrightarrow>
      (onUserJoin render userId payload current = Inr (updated', effs) \<longrightarrow>
         distinct (map u_id updated')) \<and>
      (onUserLeave userId payload current = Inr (updated', effs) \<longrightarrow>
         distinct (map u_id updated')) \<and>
      distinct (map u_id (collaborativeUsers (snd (onSubscribeStatus room status random
         (st \<lparr> collaborativeUsers := current \<rparr>))))) \<and>
      distinct (map u_id (collaborativeUsers (snd (cleanup chatId userId userName room
         sendBeacon now (st \<lparr> collaborativeUsers := current \<rparr>))))))"
proof (intro conjI impI)
  assume remote: "a_userId a \<noteq> userId \<and> \<bar>a_timestamp a\<bar> \<le> 8640000000000000"
  let ?ua = "\<lparr> u_id = Some (a_userId a), u_name = Some (a_userName a), u_email = None,
              u_cursor = None, u_color = Some (a_userColor a),
              u_online_at = render (a_timestamp a) \<rparr>"
  let ?updated = "fst (upsertOnJoin (Some (a_userId a)) ?ua current)"
  have first: "onUserJoin render userId (wire a) current = Inr (?updated, [OnPresenceChange ?updated])"
    using remote onUserJoin_remote [of a userId render current]
    by (simp add: upsertOnJoin_def Let_def)
  have one: "filter (\<lambda>u. u_id u = Some (a_userId a)) ?updated = [?ua]"
    by (rule upsertOnJoin_entries) simp
  have twice: "a_userId b = a_userId a \<and> \<bar>a_timestamp b\<bar> \<le> 8640000000000000 \<longrightarrow>
            (\<exists>again.
               onUserJoin render userId (wire b) ?updated = Inr (again, [OnPresenceChange again]) \<and>
               length again = length ?updated \<and>
               filter (\<lambda>u. u_id u = Some (a_userId a)) again =
                 [\<lparr> u_id = Some (a_userId b), u_name = Some (a_userName b), u_email = None,
                    u_cursor = None, u_color = Some (a_userColor b),
                    u_online_at = render (a_timestamp b) \<rparr>])"
  proof
    assume same: "a_userId b = a_userId a \<and> \<bar>a_timestamp b\<bar> \<le> 8640000000000000"
    let ?ub = "\<lparr> u_id = Some (a_userId b), u_name = Some (a_userName b), u_email = None,
                 u_cursor = None, u_color = Some (a_userColor b),
                 u_online_at = render (a_timestamp b) \<rparr>"
    let ?again = "fst (upsertOnJoin (Some (a_userId a)) ?ub ?updated)"
    have "onUserJoin render userId (wire b) ?updated = Inr (?again, [OnPresenceChange ?again])"
      using remote same onUserJoin_remote [of b userId render ?updated]
      by (simp add: upsertOnJoin_def Let_def)
    moreover have "length ?again = length ?updated"
      by (rule upsertOnJoin_again) simp
    moreover have "filter (\<lambda>u. u_id u = Some (a_userId a)) ?again = [?ub]"
      by (rule upsertOnJoin_entries) (simp add: same)
    ultimately show "\<exists>again.
               onUserJoin render userId (wire b) ?updated = Inr (again, [OnPresenceChange again]) \<and>
               length again = length ?updated \<and>
               filter (\<lambda>u. u_id u = Some (a_userId a)) again = [?ub]"
      by blast
  qed
  show "\<exists>updated.
         onUserJoin render userId (wire a) current = Inr (updated, [OnPresenceChange updated]) \<and>
         filter (\<lambda>u. u_id u = Some (a_userId a)) updated = [?ua] \<and>
         (a_userId b = a_userId a \<and> \<bar>a_timestamp b\<bar> \<le> 8640000000000000 \<longrightarrow>
            (\<exists>again.
               onUserJoin render userId (wire b) updated = Inr (again, [OnPresenceChange again]) \<and>
               length again = length updated \<and>
               filter (\<lambda>u. u_id u = Some (a_userId a)) again =
                 [\<lparr> u_id = Some (a_userId b), u_name = Some (a_userName b), u_email = None,
                    u_cursor = None, u_color = Some (a_userColor b),
                    u_online_at = render (a_timestamp b) \<rparr>]))"
    using first one twice by blast
next
  assume "distinct (map u_id current)"
    and "onUserJoin render userId payload current = Inr (updated', effs)"
  then show "distinct (map u_id updated')" using onUserJoin_distinct by blast
next
  assume "distinct (map u_id current)"
    and "onUserLeave userId payload current = Inr (updated', effs)"
  then show "distinct (map u_id updated')" using onUserLeave_distinct by blast
next
  assume "distinct (map u_id current)"
  then show "distinct (map u_id (collaborativeUsers (snd (onSubscribeStatus room status random
         (st \<lparr> collaborativeUsers := current \<rparr>)))))"
    by (cases status) (simp_all add: onSubscribeStatus_def)
next
  show "distinct (map u_id (collaborativeUsers (snd (cleanup chatId userId userName room
         sendBeacon now (st \<lparr> collaborativeUsers := current \<rparr>)))))"
    by (simp add: cleanup_def Let_def)
qed

theorem join_upsert_witness:
  "''u2'' \<noteq> ''u1'' \<and> \<bar>1700000000000 :: int\<bar> \<le> 8640000000000000 \<and>
   onUserJoin (\<lambda>ms. if ms = 1700000000000 then ''2023-11-14T22:13:20.000Z''
                      else ''2023-11-14T22:13:21.000Z'') ''u1''
     (wire \<lparr> a_type = user_join, a_nodeId = None, a_position = None, a_userId = ''u2'',
        a_userName = ''Bob'', a_userColor = ''#EF4444'', a_timestamp = 1700000000000,
        a_data = None \<rparr>) [] =
     Inr ([\<lparr> u_id = Some ''u2'', u_name = Some ''Bob'', u_email = None, u_cursor = None,
             u_color = Some ''#EF4444'', u_online_at = ''2023-11-14T22:13:20.000Z'' \<rparr>],
          [OnPresenceChange
            [\<lparr> u_id = Some ''u2'', u_name = Some ''Bob'', u_email = None, u_cursor = None,
               u_color = Some ''#EF4444'', u_online_at = ''2023-11-14T22:13:20.000Z'' \<rparr>]]) \<and>
   onUserJoin (\<lambda>ms. if ms = 1700000000000 then ''2023-11-14T22:13:20.000Z''
                      else ''2023-11-14T22:13:21.000Z'') ''u1''
     (wire \<lparr> a_type = user_join, a_nodeId = None, a_position = None, a_userId = ''u2'',
        a_userName = ''Bobby'', a_userColor = ''#10B981'', a_timestamp = 1700000001000,
        a_data = None \<rparr>)
     [\<lparr> u_id = Some ''u2'', u_name = Some ''Bob'', u_email = None, u_cursor = None,
        u_color = Some ''#EF4444'', u_online_at = ''2023-11-14T22:13:20.000Z'' \<rparr>] =
     Inr ([\<lparr> u_id = Some ''u2'', u_name = Some ''Bobby'', u_email = None, u_cursor = None,
             u_color = Some ''#10B981'', u_online_at = ''2023-11-14T22:13:21.000Z'' \<rparr>],
          [OnPresenceChange
            [\<lparr> u_id = Some ''u2'', u_name = Some ''Bobby'', u_email = None, u_cursor = None,
               u_color = Some ''#10B981'', u_online_at = ''2023-11-14T22:13:21.000Z'' \<rparr>]])"
  using join_upsert [where userId = "''u1''" and current = "[]"
      and render = "\<lambda>ms. if ms = 1700000000000 then ''2023-11-14T22:13:20.000Z''
                      else ''2023-11-14T22:13:21.000Z''"
      and a = "\<lparr> a_type = user_join, a_nodeId = None, a_position = None, a_userId = ''u2'',
        a_userName = ''Bob'', a_userColor = ''#EF4444'', a_timestamp = 1700000000000,
        a_data = None \<rparr>"
      and b = "\<lparr> a_type = user_join, a_nodeId = None, a_position = None, a_userId = ''u2'',
        a_userName = ''Bobby'', a_userColor = ''#10B981'', a_timestamp = 1700000001000,
        a_data = None \<rparr>"]
  by (simp add: onUserJoin_def wire_def toISOString_def newUserOf_def upsertOnJoin_def
      Let_def)

text \<open>
  Claim C1 as stated, for every inbound \<^verbatim>\<open>user_join\<close>, fails: a join that carries the
  local user's id leaves the empty list empty (line 223), and a join of a remote user
  with a timestamp one millisecond beyond the range of Date throws (line 230).
\<close>

theorem join_upsert_counterexample:
  "onUserJoin (\<lambda>ms. ''2023-11-14T22:13:20.000Z'') ''u1''
     (wire \<lparr> a_type = user_join, a_nodeId = None, a_position = None, a_userId = ''u1'',
        a_userName = ''Ann'', a_userColor = ''#3B82F6'', a_timestamp = 1700000000000,
        a_data = None \<rparr>) [] = Inr ([], []) \<and>
   onUserJoin (\<lambda>ms. ''2023-11-14T22:13:20.000Z'') ''u1''
     (wire \<lparr> a_type = user_join, a_nodeId = None, a_position = None, a_userId = ''u2'',
        a_userName = ''Bob'', a_userColor = ''#EF4444'', a_timestamp = 8640000000000001,
        a_data = None \<rparr>) [] = Inl RangeError"
  by (simp add: onUserJoin_def wire_def toISOString_def)

section \<open>Presence registry: leaves\<close>

lemma filter_out_unique:
  assumes "distinct (map f (before @ x # after))"
  shows "filter (\<lambda>u. f u \<noteq> f x) (before @ x # after) = before @ after"
proof -
  have "\<forall>u \<in> set before. f u \<noteq> f x" "\<forall>u \<in> set after. f u \<noteq> f x"
    using assms by (auto simp add: image_iff)
  then show ?thesis by simp
qed

lemma filter_absent:
  assumes "uid \<notin> f ` set current"
  shows "filter (\<lambda>u. f u \<noteq> uid) current = current"
  using assms by (auto simp add: filter_id_conv)

lemma onUserLeave_wire:
  "onUserLeave userId (wire a) current =
     (if a_userId a = userId then Inr (current, [])
      else Inr (filter (\<lambda>u. u_id u \<noteq> Some (a_userId a)) current,
                [OnPresenceChange (filter (\<lambda>u. u_id u \<noteq> Some (a_userId a)) current)]))"
  by (simp add: onUserLeave_def properties_wire removeOnLeave_def Let_def)

text \<open>
  Claim C7, as the code has it. The leave handler never throws on a well-typed envelope,
  and a \<^verbatim>\<open>userId\<close> with no entry in the list leaves the list as it was. For a remote
  \<^verbatim>\<open>userId\<close> the handler returns the list without the entries of that id and notifies with
  the list it returns; when ids are unique in the list and the id is there, that is the
  list with exactly that one entry taken out.
\<close>

theorem leave_removes:
  "(\<exists>updated effs.
      onUserLeave userId (wire a) current = Inr (updated, effs) \<and>
      (Some (a_userId a) \<notin> u_id ` set current \<longrightarrow> updated = current)) \<and>
   (a_userId a \<noteq> userId \<longrightarrow>
      (\<exists>updated.
         onUserLeave userId (wire a) current = Inr (updated, [OnPresenceChange updated]) \<and>
         updated = filter (\<lambda>u. u_id u \<noteq> Some (a_userId a)) current \<and>
         Some (a_userId a) \<notin> u_id ` set updated \<and>
         (distinct (map u_id current) \<and> Some (a_userId a) \<in> u_id ` set current \<longrightarrow>
            (\<exists>before u after.
               current = before @ u # after \<and> u_id u = Some (a_userId a) \<and>
               updated = before @ after))))"
proof (intro conjI impI)
  show "\<exists>updated effs.
      onUserLeave userId (wire a) current = Inr (updated, effs) \<and>
      (Some (a_userId a) \<notin> u_id ` set current \<longrightarrow> updated = current)"
    using filter_absent [of "Some (a_userId a)" u_id current]
    by (simp add: onUserLeave_wire)
next
  assume remote: "a_userId a \<noteq> userId"
  let ?updated = "filter (\<lambda>u. u_id u \<noteq> Some (a_userId a)) current"
  have run: "onUserLeave userId (wire a) current = Inr (?updated, [OnPresenceChange ?updated])"
    using remote by (simp add: onUserLeave_wire)
  have gone: "Some (a_userId a) \<notin> u_id ` set ?updated" by auto
  have one: "distinct (map u_id current) \<and> Some (a_userId a) \<in> u_id ` set current \<longrightarrow>
            (\<exists>before u after.
               current = before @ u # after \<and> u_id u = Some (a_userId a) \<and>
               ?updated = before @ after)"
  proof
    assume h: "distinct (map u_id current) \<and> Some (a_userId a) \<in> u_id ` set current"
    then obtain u where u: "u \<in> set current" "u_id u = Some (a_userId a)" by auto
    then obtain before after where split: "current = before @ u # after"
      by (auto simp add: in_set_conv_decomp)
    have "filter (\<lambda>v. u_id v \<noteq> u_id u) (before @ u # after) = before @ after"
      using h split filter_out_unique [of u_id before u after] by simp
    then have "?updated = before @ after" using split u(2) by simp
    then show "\<exists>before u after.
               current = before @ u # after \<and> u_id u = Some (a_userId a) \<and>
               ?updated = before @ after"
      using split u(2) by blast
  qed
  show "\<exists>updated.
         onUserLeave userId (wire a) current = Inr (updated, [OnPresenceChange updated]) \<and>
         updated = filter (\<lambda>u. u_id u \<noteq> Some (a_userId a)) current \<and>
         Some (a_userId a) \<notin> u_id ` set updated \<and>
         (distinct (map u_id current) \<and> Some (a_userId a) \<in> u_id ` set current \<longrightarrow>
            (\<exists>before u after.
               current = before @ u # after \<and> u_id u = Some (a_userId a) \<and>
               updated = before @ after))"
    using run gone one by blast
qed

theorem leave_removes_witness:
  "''u2'' \<noteq> ''u1'' \<and>
   onUserLeave ''u1''
     (wire \<lparr> a_type = user_leave, a_nodeId = None, a_position = None, a_userId = ''u2'',
        a_userName = ''Bob'', a_userColor = ''#EF4444'', a_timestamp = 1700000002000,
        a_data = None \<rparr>)
     [\<lparr> u_id = Some ''u3'', u_name = Some ''Cy'', u_email = None, u_cursor = None,
        u_color = Some ''#10B981'', u_online_at = ''2023-11-14T22:13:19.000Z'' \<rparr>,
      \<lparr> u_id = Some ''u2'', u_name = Some ''Bob'', u_email = None, u_cursor = None,
        u_color = Some ''#EF4444'', u_online_at = ''2023-11-14T22:13:20.000Z'' \<rparr>] =
     Inr ([\<lparr> u_id = Some ''u3'', u_name = Some ''Cy'', u_email = None, u_cursor = None,
             u_color = Some ''#10B981'', u_online_at = ''2023-11-14T22:13:19.000Z'' \<rparr>],
          [OnPresenceChange
            [\<lparr> u_id = Some ''u3'', u_name = Some ''Cy'', u_email = None, u_cursor = None,
               u_color = Some ''#10B981'', u_online_at = ''2023-11-14T22:13:19.000Z'' \<rparr>]]) \<and>
   onUserLeave ''u1''
     (wire \<lparr> a_type = user_leave, a_nodeId = None, a_position = None, a_userId = ''u2'',
        a_userName = ''Bob'', a_userColor = ''#EF4444'', a_timestamp = 1700000002000,
        a_data = None \<rparr>)
     [\<lparr> u_id = Some ''u3'', u_name = Some ''Cy'', u_email = None, u_cursor = None,
        u_color = Some ''#10B981'', u_online_at = ''2023-11-14T22:13:19.000Z'' \<rparr>] =
     Inr ([\<lparr> u_id = Some ''u3'', u_name = Some ''Cy'', u_email = None, u_cursor = None,
             u_color = Some ''#10B981'', u_online_at = ''2023-11-14T22:13:19.000Z'' \<rparr>],
          [OnPresenceChange
            [\<lparr> u_id = Some ''u3'', u_name = Some ''Cy'', u_email = None, u_cursor = None,
               u_color = Some ''#10B981'', u_online_at = ''2023-11-14T22:13:19.000Z'' \<rparr>]])"
  using leave_removes [where userId = "''u1''"
      and a = "\<lparr> a_type = user_leave, a_nodeId = None, a_position = None, a_userId = ''u2'',
        a_userName = ''Bob'', a_userColor = ''#EF4444'', a_timestamp = 1700000002000,
        a_data = None \<rparr>"
      and current = "[\<lparr> u_id = Some ''u3'', u_name = Some ''Cy'', u_email = None,
        u_cursor = None, u_color = Some ''#10B981'',
        u_online_at = ''2023-11-14T22:13:19.000Z'' \<rparr>,
      \<lparr> u_id = Some ''u2'', u_name = Some ''Bob'', u_email = None, u_cursor = None,
        u_color = Some ''#EF4444'', u_online_at = ''2023-11-14T22:13:20.000Z'' \<rparr>]"]
  by (simp add: onUserLeave_def wire_def removeOnLeave_def Let_def)

text \<open>
  Claim C7 as stated, for every list and every \<^verbatim>\<open>userId\<close>, fails for the local user's own
  id: the handler returns at line 249, so an entry of that id stays and nobody is
  notified.
\<close>

theorem leave_removes_counterexample:
  "onUserLeave ''u1''
     (wire \<lparr> a_type = user_leave, a_nodeId = None, a_position = None, a_userId = ''u1'',
        a_userName = ''Ann'', a_userColor = ''#3B82F6'', a_timestamp = 1700000002000,
        a_data = None \<rparr>)
     [\<lparr> u_id = Some ''u1'', u_name = Some ''Ann'', u_email = None, u_cursor = None,
        u_color = Some ''#3B82F6'', u_online_at = ''2023-11-14T22:13:20.000Z'' \<rparr>] =
     Inr ([\<lparr> u_id = Some ''u1'', u_name = Some ''Ann'', u_email = None, u_cursor = None,
             u_color = Some ''#3B82F6'', u_online_at = ''2023-11-14T22:13:20.000Z'' \<rparr>], [])"
  by (simp add: onUserLeave_def wire_def)

section \<open>Payloads with missing fields\<close>

text \<open>
  Claim C8, as the code has it. The handlers do not look at a payload before using it.
  On \<^verbatim>\<open>undefined\<close> or \<^verbatim>\<open>null\<close> each of them throws a TypeError. Any other payload is a
  no-op exactly when its \<^verbatim>\<open>userId\<close> is the local one. Otherwise it is handled as a remote
  event, whatever it lacks: the action handler dispatches it to \<^verbatim>\<open>onAction\<close>; the leave
  handler filters the list by its \<^verbatim>\<open>userId\<close>, be it \<^verbatim>\<open>undefined\<close>, and notifies; the join
  handler throws a RangeError when the timestamp is missing or lies beyond the range of
  Date, and with a timestamp in that range replaces or appends an entry made of whatever
  fields are there and notifies.
\<close>

theorem malformed_payloads:
  "onMindMapAction userId Nullish = Inl TypeError \<and>
   onUserJoin render userId Nullish current = Inl TypeError \<and>
   onUserLeave userId Nullish current = Inl TypeError \<and>
   (properties payload = Inr action \<and> w_userId action = Some userId \<longrightarrow>
      onMindMapAction userId payload = Inr [] \<and>
      onUserJoin render userId payload current = Inr (current, []) \<and>
      onUserLeave userId payload current = Inr (current, [])) \<and>
   (properties payload = Inr action \<and> w_userId action \<noteq> Some userId \<longrightarrow>
      onMindMapAction userId payload = Inr [OnAction payload] \<and>
      (\<exists>updated.
         onUserLeave userId payload current = Inr (updated, [OnPresenceChange updated]) \<and>
         updated = filter (\<lambda>u. u_id u \<noteq> w_userId action) current) \<and>
      (w_timestamp action = None \<longrightarrow>
         onUserJoin render userId payload current = Inl RangeError) \<and>
      (w_timestamp action = Some ms \<and> 8640000000000000 < \<bar>ms\<bar> \<longrightarrow>
         onUserJoin render userId payload current = Inl RangeError) \<and>
      (w_timestamp action = Some ms \<and> \<bar>ms\<bar> \<le> 8640000000000000 \<longrightarrow>
         (\<exists>updated.
            onUserJoin render userId payload current =
              Inr (updated, [OnPresenceChange updated]) \<and>
            updated = filter (\<lambda>u. u_id u \<noteq> w_userId action) current @
                        [newUserOf action (render ms)])))"
  by (simp add: onMindMapAction_def onUserJoin_def onUserLeave_def toISOString_def
      upsertOnJoin_def removeOnLeave_def Let_def)

theorem malformed_payloads_witness:
  "properties Primitive = Inr noProperties \<and> w_userId noProperties \<noteq> Some ''u1'' \<and>
   w_timestamp noProperties = None \<and>
   onMindMapAction ''u1'' Primitive = Inr [OnAction Primitive] \<and>
   onUserJoin (\<lambda>ms. ''2023-11-14T22:13:20.000Z'') ''u1'' Primitive [] = Inl RangeError \<and>
   onUserLeave ''u1'' Primitive [] = Inr ([], [OnPresenceChange []]) \<and>
   w_userId (noProperties \<lparr> w_timestamp := Some 8640000000000001 \<rparr>) \<noteq> Some ''u1'' \<and>
   (8640000000000000 :: int) < \<bar>8640000000000001\<bar> \<and>
   onUserJoin (\<lambda>ms. ''2023-11-14T22:13:20.000Z'') ''u1''
     (Object (noProperties \<lparr> w_timestamp := Some 8640000000000001 \<rparr>)) [] =
     Inl RangeError \<and>
   \<bar>1700000000000 :: int\<bar> \<le> 8640000000000000 \<and>
   onUserJoin (\<lambda>ms. ''2023-11-14T22:13:20.000Z'') ''u1''
     (Object (noProperties \<lparr> w_timestamp := Some 1700000000000 \<rparr>)) [] =
     Inr ([\<lparr> u_id = None, u_name = None, u_email = None, u_cursor = None,
             u_color = None, u_online_at = ''2023-11-14T22:13:20.000Z'' \<rparr>],
          [OnPresenceChange
            [\<lparr> u_id = None, u_name = None, u_email = None, u_cursor = None,
               u_color = None, u_online_at = ''2023-11-14T22:13:20.000Z'' \<rparr>]])"
  using malformed_payloads [where userId = "''u1''"
      and render = "\<lambda>ms. ''2023-11-14T22:13:20.000Z''" and current = "[]"
      and payload = Primitive and action = noProperties]
    malformed_payloads [where userId = "''u1''"
      and render = "\<lambda>ms. ''2023-11-14T22:13:20.000Z''" and current = "[]"
      and payload = "Object (noProperties \<lparr> w_timestamp := Some 8640000000000001 \<rparr>)"
      and action = "noProperties \<lparr> w_timestamp := Some 8640000000000001 \<rparr>"
      and ms = 8640000000000001]
    malformed_payloads [where userId = "''u1''"
      and render = "\<lambda>ms. ''2023-11-14T22:13:20.000Z''" and current = "[]"
      and payload = "Object (noProperties \<lparr> w_timestamp := Some 1700000000000 \<rparr>)"
      and action = "noProperties \<lparr> w_timestamp := Some 1700000000000 \<rparr>"
      and ms = 1700000000000]
  by (simp add: noProperties_def newUserOf_def)

text \<open>
  Claim C8 as stated fails: an object with no properties at all reaches \<^verbatim>\<open>onAction\<close>, makes
  the join handler throw, and a \<^verbatim>\<open>null\<close> payload makes the leave handler throw.
\<close>

theorem malformed_payloads_counterexample:
  "onMindMapAction ''u1'' (Object noProperties) = Inr [OnAction (Object noProperties)] \<and>
   onUserJoin (\<lambda>ms. ''1970-01-01T00:00:00.000Z'') ''u1'' (Object noProperties) [] =
     Inl RangeError \<and>
   onUserLeave ''u1'' Nullish [] = Inl TypeError"
  by (simp add: onMindMapAction_def onUserJoin_def onUserLeave_def toISOString_def
      noProperties_def)

end
